theory Spec2Isabelle
  imports Complex_Main "HOL-Library.Multiset"
begin

section \<open>The notebooks\<close>

text \<open>
  The repository's sources are two Jupyter notebooks:
  \<^verbatim>\<open>src/Central_Limit_Theorem/demo_CLT.ipynb\<close> and \<^verbatim>\<open>src/unnamed/part_000\<close>
  (the same notebook at another revision: every heading is a markdown cell of its own
  and the execution counts run from 7 to 12). A notebook is a list of cells; a markdown
  cell holds lines of text, a code cell holds Python statements, its execution count
  and the outputs recorded when it ran. The module \<^verbatim>\<open>demo_utils\<close> that the code
  cells call is not among the sources.
\<close>

subsection \<open>Python statements of the code cells\<close>

text \<open>
  Constructor names follow Python's \<^verbatim>\<open>ast\<close> module. An expression statement
  carries whether it is followed by \<^verbatim>\<open>;\<close>: the notebook shows the value of a
  cell's last expression as an \<^verbatim>\<open>execute_result\<close> output unless the statement
  ends with a semicolon. \<open>Assign\<close> does not occur in the sources; it is the form a
  statement has when it keeps a call's value.
\<close>

datatype expr =
    Name string
  | Attribute expr string
  | Call expr "expr list"
  | Constant string

datatype stmt =
    Import string "string option"
  | ImportFrom string "string list"
  | Expr expr bool
  | Assign string expr

record cell_output =
  output_type :: string
  data :: "(string \<times> string) list"

datatype cell =
    Markdown "string list"
  | Code "nat option" "stmt list" "cell_output list"

type_synonym notebook = "cell list"

subsection \<open>Cell contents\<close>

text \<open>The backslash of the notebooks' LaTeX, which a string literal cannot hold.\<close>

definition bs :: string where
  "bs = [CHR 0x5C]"

definition overview_text :: "string list" where
  "overview_text =
    [''# Overview.'',
     '''',
     ''This notebook provides five interactive demonstrations to explore the Central Limit Theorem and some strengths and weaknesses of nonparametric statistics.'',
     '''',
     ''They are:'',
     ''1. The binomial convergence to normal'',
     ''2. General sample mean convergence to normal'',
     ''3. Sample mean convergence of the Cauchy distribution'',
     ''4. Nonparametric vs parametric paired-sample tests for normal data'',
     ''5. Nonparametric vs parametric non-paried tests for data with outliers'']"

definition setup_code :: "stmt list" where
  "setup_code =
    [Import ''numpy'' (Some ''np''),
     Import ''scipy.stats'' (Some ''stats''),
     Import ''matplotlib.pyplot'' (Some ''plt''),
     Import ''seaborn'' (Some ''sns''),
     ImportFrom ''ipywidgets'' [''interact'', ''interactive'', ''fixed'', ''interact_manual''],
     Import ''ipywidgets'' (Some ''widgets''),
     Import ''demo_utils'' None,
     Expr (Call (Attribute (Name ''sns'') ''set_context'') [Constant ''poster'']) False,
     Expr (Call (Attribute (Name ''sns'') ''set_style'') [Constant ''ticks'']) False]"

definition binomial_heading :: string where
  "binomial_heading = ''## Binomial convergence to normal''"

definition binomial_text :: "string list" where
  "binomial_text =
    [''For $Y '' @ bs @ ''sim '' @ bs @ ''mathrm{Binom}(n, p)$, we can estimate'',
     ''$$'' @ bs @ ''hat{p} = Y/n$$'',
     ''Since $Y = '' @ bs @ ''sum_i^n X_i$ where $X_i '' @ bs @ ''sim '' @ bs @ ''mathrm{Bernoulli(p)}$, the central limit theorem implies:'',
     ''$$ '' @ bs @ ''hat{p} '' @ bs @ ''sim N('' @ bs @ ''mu, '' @ bs @ ''sigma^2)$$'',
     ''where:'',
     ''* $'' @ bs @ ''mu = p$'',
     ''* $'' @ bs @ ''sigma^2 = pq/n$'',
     '''',
     ''This simulation allows you to explore this convergence as n and p vary. Does the $npq>5$ rule seem right?'',
     '''',
     ''**Params**'',
     ''* *n*: number of samples to draw from the binomial'',
     ''* *p*: probability of success under binomial'']"

definition CLT_heading :: string where
  "CLT_heading = ''## The Central Limit Theorem for common distributions''"

definition CLT_text :: "string list" where
  "CLT_text =
    [''The binomial is not the only distribution who's sample mean will converge to a normal distribution. The Central Limit Theorem tells us that the sample mean of any *iid* observations from a distribution with finite mean and variance will converge to a normal distribution.'',
     '''',
     ''Suppose $'' @ bs @ ''{X_1, X_2, ..., X_n'' @ bs @ ''}$ are *iid* observations from a probability distribution with mean $mu$ and variance $'' @ bs @ ''sigma^2$. '',
     '''',
     ''Define'',
     ''$$ '' @ bs @ ''bar{X} = '' @ bs @ ''frac{1}{n} '' @ bs @ ''sum_i^n X_i.$$'',
     ''Then'',
     ''$$ '' @ bs @ ''lim_{n'' @ bs @ ''to'' @ bs @ ''infty} '' @ bs @ ''sqrt{n} '' @ bs @ ''frac{'' @ bs @ ''bar{X} - '' @ bs @ ''mu}{'' @ bs @ ''sigma} '' @ bs @ ''sim N(0, 1).$$'',
     '''',
     ''This simulation allows you to explore this convergence for a variety of common distributions, both continuous and and discrete, by simulating $'' @ bs @ ''bar{X}$ many times.'',
     '''',
     ''**Params**:'',
     ''* *distribution*: your choice of distribution'',
     ''* *outer_n*: number of times to simulate $'' @ bs @ ''bar{X}$'',
     ''* *inner_n*: number of observations to draw from the distribution to estimate each $'' @ bs @ ''bar{X}$'',
     ''* *density*: use kernel-density estimation (otherwise plot a histogram)'']"

definition cauchy_heading :: string where
  "cauchy_heading = ''## Sample mean of the Cauchy distribution''"

definition cauchy_text :: "string list" where
  "cauchy_text =
    [''The standard Cauchy distribution has the probability density function:'',
     ''$$f(x) = '' @ bs @ ''frac{1}{'' @ bs @ ''pi(1+x^2)}.$$'',
     '''',
     ''Observations from this distribution have a peculiar property. Can you figure out what it is?'']"

definition paired_heading :: string where
  "paired_heading = ''## Behavior of the Signed-Rank test for paired observations''"

definition paired_text :: "string list" where
  "paired_text =
    [''Nonparametric statistics are broadly applicable under very general assumptions. The cost of this generality is power. But how much power do we lose?'',
     '''',
     ''This simulation allows you to explore how the Wilcoxon Signed-Rank test performs compared to a paired t-test when the data truly are normally distributed.'',
     '''',
     ''**Params**'',
     ''* *mu1*: the mean of group 1'',
     ''* *sigma1*: the standard deviation of group 1'',
     ''* *mu2*: the mean of group 2'',
     ''* *sigma2*: the standard deviation of group 2'',
     ''* *n*: the number of paired observations'']"

definition outlier_heading :: string where
  "outlier_heading = ''## Nonparametric vs parametric performance with outliers''"

definition outlier_text :: "string list" where
  "outlier_text =
    [''Commonly in biomedical data are outliers, observations which arise from a different distribution than other samples. This can be do to technical artifact or true biology.'',
     '''',
     ''Important questions to consider when analyzing data are: 1) do my data have outliers and 2) how robust are my statistical methods to outliers? '',
     '''',
     ''In this simulation, you can explore the performance of the Wilcoxon Rank-Sum (Mann-Whitney U) test when outliers exist. Two sets of observations are independently drawn from the same distribution; to one of these sets is added a number of observations drawn from a different distribution. Under which conditions should you use each technique?'',
     '''',
     ''**Params**:'',
     ''* *n1*: number of observations in set 1'',
     ''* *n2*: number of observations in set 2 drawn from the same distribution as set 1'',
     ''* *n3*: number of outlier observations to add to set 2'',
     ''* mu: the mean of the outlier distribution'',
     ''* sigma: the standard deviation of the outlier distribution'']"

text \<open>
  A demo cell is the one statement \<^verbatim>\<open>demo_utils.<name>();\<close>. Its recorded
  output is one \<^verbatim>\<open>display_data\<close> whose data has the one key
  \<^verbatim>\<open>application/vnd.jupyter.widget-view+json\<close>, holding a widget model id.
\<close>

definition demo_call :: "string \<Rightarrow> stmt" where
  "demo_call f = Expr (Call (Attribute (Name ''demo_utils'') f) []) True"

definition widget_view :: "string \<Rightarrow> cell_output" where
  "widget_view model_id =
    \<lparr>output_type = ''display_data'',
     data = [(''application/vnd.jupyter.widget-view+json'', model_id)]\<rparr>"

subsection \<open>The two files\<close>

definition demo_CLT :: notebook where
  "demo_CLT =
    [Markdown overview_text,
     Code (Some 1) setup_code [],
     Markdown (binomial_heading # '''' # binomial_text),
     Code (Some 2) [demo_call ''binomial_interactive'']
       [widget_view ''f51cb88f0d6f4846af9e1a4c72b563d5''],
     Markdown (CLT_heading # '''' # CLT_text),
     Code (Some 3) [demo_call ''CLT_interactive'']
       [widget_view ''3c2dc3b0af27483780cf8e51e2e95a3d''],
     Markdown (cauchy_heading # '''' # cauchy_text),
     Code (Some 4) [demo_call ''cauchy_CLT_interactive'']
       [widget_view ''5e170e3072f74265b30c968a01fdee04''],
     Markdown (paired_heading # '''' # paired_text),
     Code (Some 5) [demo_call ''paired_sample_interactive'']
       [widget_view ''24ed0b5263514de9ae32a281f35f744e''],
     Markdown (outlier_heading # '''' # outlier_text),
     Code (Some 6) [demo_call ''outlier_interactive'']
       [widget_view ''dfe50cec8cf343f6b57ccc6bacc61f3e''],
     Code None [] []]"

definition part_000 :: notebook where
  "part_000 =
    [Markdown overview_text,
     Code (Some 7) setup_code [],
     Markdown [binomial_heading],
     Markdown binomial_text,
     Code (Some 8) [demo_call ''binomial_interactive'']
       [widget_view ''62dc9450aeba46f1bcbf6c1e24bdf968''],
     Markdown [CLT_heading],
     Markdown CLT_text,
     Code (Some 9) [demo_call ''CLT_interactive'']
       [widget_view ''ed8390e3bb3c4703b4581740a05d2d48''],
     Markdown [cauchy_heading],
     Markdown cauchy_text,
     Code (Some 10) [demo_call ''cauchy_CLT_interactive'']
       [widget_view ''581fa3f4a63d41558fa865853789e427''],
     Markdown [paired_heading],
     Markdown paired_text,
     Code (Some 11) [demo_call ''paired_sample_interactive'']
       [widget_view ''2d4a68219aac4812b32b43d3903808ed''],
     Markdown [outlier_heading],
     Markdown outlier_text,
     Code (Some 12) [demo_call ''outlier_interactive'']
       [widget_view ''efa2d57d2ec74f46bb3b5a1679062d83''],
     Code None [] []]"

section \<open>Reading the notebooks\<close>

subsection \<open>Uses of the engine module\<close>

text \<open>Whether an expression mentions the name \<open>m\<close> anywhere inside it.\<close>

fun refers_to :: "string \<Rightarrow> expr \<Rightarrow> bool" where
  "refers_to m (Name x) = (x = m)"
| "refers_to m (Attribute e a) = refers_to m e"
| "refers_to m (Call f args) = (refers_to m f \<or> list_ex (refers_to m) args)"
| "refers_to m (Constant s) = False"

fun uses_module :: "string \<Rightarrow> stmt \<Rightarrow> bool" where
  "uses_module m (Import m' alias) = False"
| "uses_module m (ImportFrom m' names) = False"
| "uses_module m (Expr e semi) = refers_to m e"
| "uses_module m (Assign x e) = refers_to m e"

fun imports_module :: "string \<Rightarrow> stmt \<Rightarrow> bool" where
  "imports_module m (Import m' alias) = (m' = m)"
| "imports_module m (ImportFrom m' names) = (m' = m)"
| "imports_module m (Expr e semi) = False"
| "imports_module m (Assign x e) = False"

fun cell_stmts :: "cell \<Rightarrow> stmt list" where
  "cell_stmts (Markdown ls) = []"
| "cell_stmts (Code n ss os) = ss"

fun cell_outputs :: "cell \<Rightarrow> cell_output list" where
  "cell_outputs (Markdown ls) = []"
| "cell_outputs (Code n ss os) = os"

text \<open>Every statement of a notebook that mentions \<^verbatim>\<open>demo_utils\<close>, in cell order.\<close>

definition engine_stmts :: "notebook \<Rightarrow> stmt list" where
  "engine_stmts nb = filter (uses_module ''demo_utils'') (concat (map cell_stmts nb))"

text \<open>
  What a statement \<open>s\<close> of a cell \<open>c\<close> must look like for the engine to be entered with
  nothing passed in and nothing taken out: the module is bound by a plain
  \<^verbatim>\<open>import demo_utils\<close> only, and a statement that mentions it is a call
  \<^verbatim>\<open>demo_utils.f();\<close> with an empty argument list, standing alone as an expression
  statement closed by a semicolon in a cell whose recorded outputs are widget views.
\<close>

definition bare_call :: "cell \<Rightarrow> stmt \<Rightarrow> bool" where
  "bare_call c s \<longleftrightarrow>
     (imports_module ''demo_utils'' s \<longrightarrow> s = Import ''demo_utils'' None) \<and>
     (uses_module ''demo_utils'' s \<longrightarrow>
        (\<exists>f. s = Expr (Call (Attribute (Name ''demo_utils'') f) []) True) \<and>
        cell_stmts c = [s] \<and>
        (\<forall>out \<in> set (cell_outputs c).
           output_type out = ''display_data'' \<and>
           map fst (data out) = [''application/vnd.jupyter.widget-view+json'']))"

section \<open>The engine, from its specification\<close>

text \<open>
  The module \<^verbatim>\<open>demo_utils\<close>, which holds the sampling, the tests and the
  aggregation, is not among the sources. The definitions of this section follow the
  words of the specification (sections 3, 4.3, 4.4 and 4.5), over the reals.
\<close>

text \<open>
  Modelled from the spec: the data model's
  \<^verbatim>\<open>TestOutcome { statistic: real, p_value: real in [0,1], reject: bool }\<close>,
  "result of applying a named hypothesis test" (the missing test reducers' result).
\<close>

record TestOutcome =
  statistic :: real
  p_value :: real
  reject :: bool

text \<open>
  Modelled from the spec: the data model's TrialOutcome (the missing module's per-trial
  result), an \<^verbatim>\<open>EstimateOutcome { value }\<close> or the outcome of a test reducer.
  Section 4.3 has a test reducer apply both of its tests to the same draw and "report
  both reject decisions per trial", and section 4.5 reads both tests' rates "from the
  same series"; so the outcome of a test trial holds one TestOutcome for each named
  test applied in it, under the test's name.
\<close>

datatype TrialOutcome =
    is_estimate: EstimateOutcome (estimate: real)
  | is_test: TestOutcomes (tests: "(string \<times> TestOutcome) list")

text \<open>
  Modelled from the spec: TrialSeries, "an ordered sequence of TrialOutcome of fixed,
  known length (outer trial count)" (the missing trial runner's result): one
  TrialOutcome per trial.
\<close>

type_synonym TrialSeries = "TrialOutcome list"

text \<open>
  Modelled from the spec: AggregateResult (the missing aggregator's result), "for
  EstimateOutcome series: empirical mean and standard deviation; for TestOutcome series:
  empirical rejection rate", the rate "separately for each test family present": a rate
  for each name of a test that occurs in the series.
\<close>

datatype AggregateResult =
    EstimateSummary real real
  | TestSummary "string \<rightharpoonup> real"

text \<open>
  Modelled from the spec: the "sample mean" of section 4.5 (the missing aggregator's
  arithmetic), the sum of the values over their number.
\<close>

definition sample_mean :: "real list \<Rightarrow> real" where
  "sample_mean xs = sum_list xs / real (length xs)"

text \<open>
  Modelled from the spec: the "sample standard deviation" of section 4.5 (the missing
  aggregator's arithmetic), the root of the squared deviations from the sample mean,
  summed and divided by one less than their number. The spec defines the summary for
  every series of at least one trial and names no value for a single estimate, where
  that divisor is zero; the model takes 0 there.
\<close>

definition sample_sd :: "real list \<Rightarrow> real" where
  "sample_sd xs =
     (if length xs \<le> 1 then 0
      else sqrt (sum_list (map (\<lambda>x. (x - sample_mean xs)\<^sup>2) xs) / real (length xs - 1)))"

text \<open>
  Modelled from the spec: what a trial reports for the test named \<open>f\<close> (the missing
  reducers' result, read by the missing aggregator): nothing in an estimate, and
  nothing in a test trial that did not apply \<open>f\<close>.
\<close>

fun outcome_of :: "string \<Rightarrow> TrialOutcome \<Rightarrow> TestOutcome option" where
  "outcome_of f (EstimateOutcome v) = None"
| "outcome_of f (TestOutcomes ts) = map_of ts f"

text \<open>
  Modelled from the spec: whether the trial's test named \<open>f\<close> rejected (the missing
  aggregator's count of \<^verbatim>\<open>reject\<close>).
\<close>

definition rejects :: "string \<Rightarrow> TrialOutcome \<Rightarrow> bool" where
  "rejects f t = (case outcome_of f t of None \<Rightarrow> False | Some r \<Rightarrow> reject r)"

text \<open>
  Modelled from the spec: "rejection rate = reject count / T" of one test family,
  "empirical rejection rate = count(reject)/len(series)" (the missing aggregator's
  arithmetic): the trials in which the test named \<open>f\<close> rejected, over the length of the
  series, which is the trial count \<open>T\<close>.
\<close>

definition rejection_rate :: "string \<Rightarrow> TrialSeries \<Rightarrow> real" where
  "rejection_rate f series = real (length (filter (rejects f) series)) / real (length series)"

text \<open>
  Modelled from the spec: the rates "separately for each test family present" (the missing
  aggregator's report): a rate for the name \<open>f\<close> exactly when some trial of the series
  applied the test \<open>f\<close>.
\<close>

definition family_rates :: "TrialSeries \<Rightarrow> (string \<rightharpoonup> real)" where
  "family_rates series =
     (\<lambda>f. if list_ex (\<lambda>t. outcome_of f t \<noteq> None) series
          then Some (rejection_rate f series) else None)"

text \<open>
  Modelled from the spec: \<^verbatim>\<open>summarize(series: TrialSeries) -> AggregateResult\<close> of
  section 4.5 (the missing Aggregator). The spec defines it for a series of at least one
  trial, all of them estimates or all of them test trials; on any other list the model
  has no result.
\<close>

definition summarize :: "TrialSeries \<Rightarrow> AggregateResult option" where
  "summarize series =
     (if series = [] then None
      else if list_all is_estimate series then
        Some (EstimateSummary (sample_mean (map estimate series))
                              (sample_sd (map estimate series)))
      else if list_all is_test series then Some (TestSummary (family_rates series))
      else None)"

section \<open>The notebooks enter the engine bare\<close>

lemma engine_stmts_demo_CLT:
  "engine_stmts demo_CLT = map demo_call
     [''binomial_interactive'', ''CLT_interactive'', ''cauchy_CLT_interactive'',
      ''paired_sample_interactive'', ''outlier_interactive'']"
  by (simp add: engine_stmts_def demo_CLT_def setup_code_def demo_call_def)

lemma engine_stmts_part_000:
  "engine_stmts part_000 = map demo_call
     [''binomial_interactive'', ''CLT_interactive'', ''cauchy_CLT_interactive'',
      ''paired_sample_interactive'', ''outlier_interactive'']"
  by (simp add: engine_stmts_def part_000_def setup_code_def demo_call_def)

lemma bare_calls_demo_CLT:
  "\<forall>c \<in> set demo_CLT. \<forall>s \<in> set (cell_stmts c). bare_call c s"
  by (simp add: bare_call_def demo_CLT_def setup_code_def demo_call_def widget_view_def)

lemma bare_calls_part_000:
  "\<forall>c \<in> set part_000. \<forall>s \<in> set (cell_stmts c). bare_call c s"
  by (simp add: bare_call_def part_000_def setup_code_def demo_call_def widget_view_def)

lemma no_result_demo_CLT:
  "\<forall>c \<in> set demo_CLT. \<forall>out \<in> set (cell_outputs c). output_type out \<noteq> ''execute_result''"
  by (simp add: demo_CLT_def widget_view_def)

lemma no_result_part_000:
  "\<forall>c \<in> set part_000. \<forall>out \<in> set (cell_outputs c). output_type out \<noteq> ''execute_result''"
  by (simp add: part_000_def widget_view_def)

text \<open>
  The check is not an empty one: a statement that passes a value in and keeps the
  result is no bare call.
\<close>

lemma bare_call_refuses_argument_and_result:
  "\<not> bare_call
      (Code None
        [Assign ''result''
          (Call (Attribute (Name ''demo_utils'') ''binomial_interactive'') [Constant ''seed''])] [])
      (Assign ''result''
        (Call (Attribute (Name ''demo_utils'') ''binomial_interactive'') [Constant ''seed'']))"
  by (simp add: bare_call_def)

text \<open>
  C10. In both notebooks the statements that mention \<^verbatim>\<open>demo_utils\<close> are exactly the
  five calls \<^verbatim>\<open>demo_utils.binomial_interactive();\<close>, \<^verbatim>\<open>CLT_interactive\<close>,
  \<^verbatim>\<open>cauchy_CLT_interactive\<close>, \<^verbatim>\<open>paired_sample_interactive\<close> and
  \<^verbatim>\<open>outlier_interactive\<close> (the four entry points of the claim among them). The module
  is bound by a plain import only. Each call has an empty argument list, so no
  configuration record and no seed goes in; each is an expression statement closed by a
  semicolon and the only statement of its cell, so the returned value is dropped; the
  outputs recorded for its cell are widget views of type \<^verbatim>\<open>display_data\<close>, and no
  cell of either notebook has an \<^verbatim>\<open>execute_result\<close>.
\<close>

theorem entry_points_take_nothing_return_nothing:
  "\<forall>nb \<in> {demo_CLT, part_000}.
     engine_stmts nb = map demo_call
       [''binomial_interactive'', ''CLT_interactive'', ''cauchy_CLT_interactive'',
        ''paired_sample_interactive'', ''outlier_interactive''] \<and>
     (\<forall>c \<in> set nb. \<forall>s \<in> set (cell_stmts c).
        (imports_module ''demo_utils'' s \<longrightarrow> s = Import ''demo_utils'' None) \<and>
        (uses_module ''demo_utils'' s \<longrightarrow>
           (\<exists>f. s = Expr (Call (Attribute (Name ''demo_utils'') f) []) True) \<and>
           cell_stmts c = [s] \<and>
           (\<forall>out \<in> set (cell_outputs c).
              output_type out = ''display_data'' \<and>
              map fst (data out) = [''application/vnd.jupyter.widget-view+json'']))) \<and>
     (\<forall>c \<in> set nb. \<forall>out \<in> set (cell_outputs c). output_type out \<noteq> ''execute_result'')"
  using engine_stmts_demo_CLT engine_stmts_part_000 bare_calls_demo_CLT bare_calls_part_000
    no_result_demo_CLT no_result_part_000
  unfolding bare_call_def by blast

theorem entry_points_take_nothing_return_nothing_witness:
  "part_000 \<in> {demo_CLT, part_000} \<and>
   Code (Some 8) [demo_call ''binomial_interactive'']
     [widget_view ''62dc9450aeba46f1bcbf6c1e24bdf968''] \<in> set part_000 \<and>
   uses_module ''demo_utils'' (demo_call ''binomial_interactive'') \<and>
   (\<exists>f. demo_call ''binomial_interactive'' =
      Expr (Call (Attribute (Name ''demo_utils'') f) []) True) \<and>
   output_type (widget_view ''62dc9450aeba46f1bcbf6c1e24bdf968'') = ''display_data'' \<and>
   output_type (widget_view ''62dc9450aeba46f1bcbf6c1e24bdf968'') \<noteq> ''execute_result''"
  using entry_points_take_nothing_return_nothing
  by (simp add: part_000_def demo_call_def widget_view_def)

section \<open>The summary does not depend on the order of the trials\<close>

lemma sum_list_map_mset_cong:
  fixes f :: "'a \<Rightarrow> real"
  assumes "mset xs = mset ys"
  shows "sum_list (map f xs) = sum_list (map f ys)"
proof -
  have "sum_list (map f xs) = sum_mset (image_mset f (mset xs))"
    by (simp add: sum_mset_sum_list [symmetric])
  also have "\<dots> = sum_mset (image_mset f (mset ys))"
    using assms by simp
  also have "\<dots> = sum_list (map f ys)"
    by (simp add: sum_mset_sum_list [symmetric])
  finally show ?thesis .
qed

lemma sample_mean_mset_cong:
  assumes "mset xs = mset ys"
  shows "sample_mean xs = sample_mean ys"
proof -
  have "sum_list xs = sum_list ys"
    using sum_list_map_mset_cong [OF assms, of "\<lambda>x. x"] by simp
  moreover have "length xs = length ys"
    using assms by (rule mset_eq_length)
  ultimately show ?thesis by (simp add: sample_mean_def)
qed

lemma sample_sd_mset_cong:
  assumes "mset xs = mset ys"
  shows "sample_sd xs = sample_sd ys"
proof -
  have m: "sample_mean xs = sample_mean ys"
    using assms by (rule sample_mean_mset_cong)
  have "sum_list (map (\<lambda>x. (x - sample_mean ys)\<^sup>2) xs) =
        sum_list (map (\<lambda>x. (x - sample_mean ys)\<^sup>2) ys)"
    using assms by (rule sum_list_map_mset_cong)
  moreover have "length xs = length ys"
    using assms by (rule mset_eq_length)
  ultimately show ?thesis by (simp add: sample_sd_def m)
qed

lemma rejection_rate_mset_cong:
  assumes "mset xs = mset ys"
  shows "rejection_rate f xs = rejection_rate f ys"
proof -
  have "mset (filter (rejects f) xs) = mset (filter (rejects f) ys)"
    using assms by simp
  then have "length (filter (rejects f) xs) = length (filter (rejects f) ys)"
    by (rule mset_eq_length)
  moreover have "length xs = length ys"
    using assms by (rule mset_eq_length)
  ultimately show ?thesis by (simp add: rejection_rate_def)
qed

lemma family_rates_mset_cong:
  assumes "mset xs = mset ys"
  shows "family_rates xs = family_rates ys"
proof
  fix f
  have "set xs = set ys"
    using assms by (rule mset_eq_setD)
  then have "list_ex (\<lambda>t. outcome_of f t \<noteq> None) xs = list_ex (\<lambda>t. outcome_of f t \<noteq> None) ys"
    by (simp add: list_ex_iff)
  then show "family_rates xs f = family_rates ys f"
    by (simp add: family_rates_def rejection_rate_mset_cong [OF assms])
qed

text \<open>
  The summaries of small series, as the definitions compute them. In the second the
  t-test rejects in two of three trials and the signed-rank test in one: the two
  families have rates of their own, and a test that no trial applied has none.
\<close>

lemma summarize_estimates_example:
  "summarize [EstimateOutcome 1, EstimateOutcome 2, EstimateOutcome 3] =
   Some (EstimateSummary 2 1)"
  by (simp add: summarize_def sample_mean_def sample_sd_def power2_eq_square)

lemma family_rates_example:
  "family_rates
     [TestOutcomes [(''t-test'', \<lparr>statistic = 3, p_value = 1/100, reject = True\<rparr>),
                    (''signed-rank'', \<lparr>statistic = 2, p_value = 3/100, reject = True\<rparr>)],
      TestOutcomes [(''t-test'', \<lparr>statistic = 1/2, p_value = 7/10, reject = False\<rparr>),
                    (''signed-rank'', \<lparr>statistic = 20, p_value = 3/5, reject = False\<rparr>)],
      TestOutcomes [(''t-test'', \<lparr>statistic = 4, p_value = 1/1000, reject = True\<rparr>),
                    (''signed-rank'', \<lparr>statistic = 9, p_value = 1/5, reject = False\<rparr>)]]
   = [''t-test'' \<mapsto> 2/3, ''signed-rank'' \<mapsto> 1/3]"
  by (rule ext) (simp add: family_rates_def rejection_rate_def rejects_def)

lemma summarize_mixed_example:
  "summarize [EstimateOutcome 1, TestOutcomes []] = None \<and> summarize [] = None"
  by (simp add: summarize_def)

text \<open>
  C8. A series and any permutation of it (a list with the same trial outcomes, each as
  many times) have the same summary: the same mean and standard deviation of the
  estimates, the same rejection rate for each test family, rates for the same families,
  and no summary for one exactly when there is none for the other.
\<close>

theorem summarize_order_independent:
  assumes "mset series' = mset series"
  shows "summarize series' = summarize series"
proof -
  have len: "length series' = length series"
    using assms by (rule mset_eq_length)
  have set: "set series' = set series"
    using assms by (rule mset_eq_setD)
  have est: "mset (map estimate series') = mset (map estimate series)"
    using assms by simp
  have "(series' = []) = (series = [])"
    using len by auto
  moreover have "list_all is_estimate series' = list_all is_estimate series"
    by (simp add: list_all_iff set)
  moreover have "list_all is_test series' = list_all is_test series"
    by (simp add: list_all_iff set)
  ultimately show ?thesis
    unfolding summarize_def
    by (simp add: sample_mean_mset_cong [OF est] sample_sd_mset_cong [OF est]
        family_rates_mset_cong [OF assms])
qed

theorem summarize_order_independent_witness:
  "mset [TestOutcomes [(''t-test'', \<lparr>statistic = 3, p_value = 1/100, reject = True\<rparr>),
                       (''signed-rank'', \<lparr>statistic = 2, p_value = 3/100, reject = True\<rparr>)],
         TestOutcomes [(''t-test'', \<lparr>statistic = 1/2, p_value = 7/10, reject = False\<rparr>),
                       (''signed-rank'', \<lparr>statistic = 20, p_value = 3/5, reject = False\<rparr>)],
         TestOutcomes [(''t-test'', \<lparr>statistic = 4, p_value = 1/1000, reject = True\<rparr>),
                       (''signed-rank'', \<lparr>statistic = 9, p_value = 1/5, reject = False\<rparr>)]] =
   mset [TestOutcomes [(''t-test'', \<lparr>statistic = 1/2, p_value = 7/10, reject = False\<rparr>),
                       (''signed-rank'', \<lparr>statistic = 20, p_value = 3/5, reject = False\<rparr>)],
         TestOutcomes [(''t-test'', \<lparr>statistic = 4, p_value = 1/1000, reject = True\<rparr>),
                       (''signed-rank'', \<lparr>statistic = 9, p_value = 1/5, reject = False\<rparr>)],
         TestOutcomes [(''t-test'', \<lparr>statistic = 3, p_value = 1/100, reject = True\<rparr>),
                       (''signed-rank'', \<lparr>statistic = 2, p_value = 3/100, reject = True\<rparr>)]] \<and>
   summarize
        [TestOutcomes [(''t-test'', \<lparr>statistic = 3, p_value = 1/100, reject = True\<rparr>),
                       (''signed-rank'', \<lparr>statistic = 2, p_value = 3/100, reject = True\<rparr>)],
         TestOutcomes [(''t-test'', \<lparr>statistic = 1/2, p_value = 7/10, reject = False\<rparr>),
                       (''signed-rank'', \<lparr>statistic = 20, p_value = 3/5, reject = False\<rparr>)],
         TestOutcomes [(''t-test'', \<lparr>statistic = 4, p_value = 1/1000, reject = True\<rparr>),
                       (''signed-rank'', \<lparr>statistic = 9, p_value = 1/5, reject = False\<rparr>)]] =
   summarize
        [TestOutcomes [(''t-test'', \<lparr>statistic = 1/2, p_value = 7/10, reject = False\<rparr>),
                       (''signed-rank'', \<lparr>statistic = 20, p_value = 3/5, reject = False\<rparr>)],
         TestOutcomes [(''t-test'', \<lparr>statistic = 4, p_value = 1/1000, reject = True\<rparr>),
                       (''signed-rank'', \<lparr>statistic = 9, p_value = 1/5, reject = False\<rparr>)],
         TestOutcomes [(''t-test'', \<lparr>statistic = 3, p_value = 1/100, reject = True\<rparr>),
                       (''signed-rank'', \<lparr>statistic = 2, p_value = 3/100, reject = True\<rparr>)]]"
proof -
  have p:
    "mset [TestOutcomes [(''t-test'', \<lparr>statistic = 3, p_value = 1/100, reject = True\<rparr>),
                         (''signed-rank'', \<lparr>statistic = 2, p_value = 3/100, reject = True\<rparr>)],
           TestOutcomes [(''t-test'', \<lparr>statistic = 1/2, p_value = 7/10, reject = False\<rparr>),
                         (''signed-rank'', \<lparr>statistic = 20, p_value = 3/5, reject = False\<rparr>)],
           TestOutcomes [(''t-test'', \<lparr>statistic = 4, p_value = 1/1000, reject = True\<rparr>),
                         (''signed-rank'', \<lparr>statistic = 9, p_value = 1/5, reject = False\<rparr>)]] =
     mset [TestOutcomes [(''t-test'', \<lparr>statistic = 1/2, p_value = 7/10, reject = False\<rparr>),
                         (''signed-rank'', \<lparr>statistic = 20, p_value = 3/5, reject = False\<rparr>)],
           TestOutcomes [(''t-test'', \<lparr>statistic = 4, p_value = 1/1000, reject = True\<rparr>),
                         (''signed-rank'', \<lparr>statistic = 9, p_value = 1/5, reject = False\<rparr>)],
           TestOutcomes [(''t-test'', \<lparr>statistic = 3, p_value = 1/100, reject = True\<rparr>),
                         (''signed-rank'', \<lparr>statistic = 2, p_value = 3/100, reject = True\<rparr>)]]"
    by simp
  from p summarize_order_independent [OF p] show ?thesis
    by (rule conjI)
qed

end
